theory Spec2Isabelle
  imports Main
begin

section \<open>Python values\<close>

text \<open>
  The values that flow through \<^verbatim>\<open>gns3server/controller/vm.py\<close>: \<^verbatim>\<open>None\<close>, booleans,
  unbounded integers and strings.  A dictionary is a finite map from string keys to such
  values.  Dictionaries are mutable objects that several owners may hold at once, so they
  live in a store and are passed around as references.
\<close>

datatype pyval = PNone | PBool bool | PInt int | PStr string

type_synonym pydict = "string \<rightharpoonup> pyval"

type_synonym ref = nat

text \<open>\<^verbatim>\<open>str(x)\<close>, which is what \<^verbatim>\<open>"{}".format(x)\<close> inserts for these values.\<close>

fun nat_to_str :: "nat \<Rightarrow> string" where
  "nat_to_str n =
     (if n < 10 then [char_of (48 + n)]
      else nat_to_str (n div 10) @ [char_of (48 + n mod 10)])"

definition int_to_str :: "int \<Rightarrow> string" where
  "int_to_str i = (if i < 0 then CHR ''-'' # nat_to_str (nat (- i)) else nat_to_str (nat i))"

fun py_str :: "pyval \<Rightarrow> string" where
  "py_str PNone = ''None''"
| "py_str (PBool b) = (if b then ''True'' else ''False'')"
| "py_str (PInt i) = int_to_str i"
| "py_str (PStr s) = s"

section \<open>The VM proxy (gns3server/controller/vm.py)\<close>

text \<open>
  The collaborators of a VM are the owning project and the hypervisor; the class reads
  their \<^verbatim>\<open>id\<close> attribute and calls \<^verbatim>\<open>hypervisor.post\<close>.
\<close>

record project =
  project_id :: pyval

record hypervisor =
  hypervisor_id :: pyval

text \<open>One call \<^verbatim>\<open>hypervisor.post(path, data=data)\<close>: the receiver, the path and the
  contents of the body at the moment of the call.\<close>

record request =
  req_hypervisor :: hypervisor
  req_path :: string
  req_data :: pydict

text \<open>The state outside a VM object: the dictionaries, by reference, and the requests
  posted so far, oldest first.\<close>

record world =
  dicts :: "ref \<Rightarrow> pydict"
  posted :: "request list"

text \<open>The attributes \<^verbatim>\<open>self._id\<close>, \<^verbatim>\<open>self._name\<close>, ... of a VM object.
  \<^verbatim>\<open>self._properties\<close> is a reference: the assignment in \<^verbatim>\<open>__init__\<close> stores the
  caller's dictionary object, not a copy of it.\<close>

record VM =
  self_id :: pyval
  self_name :: pyval
  self_project :: project
  self_hypervisor :: hypervisor
  self_vm_type :: pyval
  self_console :: pyval
  self_console_type :: pyval
  self_properties :: ref

text \<open>The default \<^verbatim>\<open>properties={}\<close> of \<^verbatim>\<open>__init__\<close> is evaluated once, when the
  \<^verbatim>\<open>def\<close> statement runs: every call that omits the argument receives this one
  dictionary object.\<close>

definition default_properties :: ref where
  "default_properties = 0"

text \<open>
  \<^verbatim>\<open>VM.__init__\<close>.  \<open>uuid4\<close> is the string that \<^verbatim>\<open>str(uuid.uuid4())\<close> evaluates to in
  this call.  The parameters \<^verbatim>\<open>vm_id\<close>, \<^verbatim>\<open>vm_type\<close>, \<^verbatim>\<open>name\<close> and \<^verbatim>\<open>console\<close> default
  to \<^verbatim>\<open>None\<close>, so an omitted argument is \<open>PNone\<close>; for \<^verbatim>\<open>console_type\<close> and
  \<^verbatim>\<open>properties\<close> an omitted argument is \<open>None\<close> of the option type.
\<close>

definition VM_init ::
  "string \<Rightarrow> project \<Rightarrow> hypervisor \<Rightarrow> pyval \<Rightarrow> pyval \<Rightarrow> pyval \<Rightarrow> pyval \<Rightarrow>
   pyval option \<Rightarrow> ref option \<Rightarrow> VM" where
  "VM_init uuid4 proj hyp vm_id vm_type name console console_type properties =
     \<lparr> self_id = (if vm_id = PNone then PStr uuid4 else vm_id),
       self_name = name,
       self_project = proj,
       self_hypervisor = hyp,
       self_vm_type = vm_type,
       self_console = console,
       self_console_type = (case console_type of None \<Rightarrow> PStr ''telnet'' | Some t \<Rightarrow> t),
       self_properties = (case properties of None \<Rightarrow> default_properties | Some d \<Rightarrow> d) \<rparr>"

text \<open>The read-only properties of the class.\<close>

definition VM_id :: "VM \<Rightarrow> pyval" where
  "VM_id self = self_id self"

definition VM_vm_type :: "VM \<Rightarrow> pyval" where
  "VM_vm_type self = self_vm_type self"

definition VM_console :: "VM \<Rightarrow> pyval" where
  "VM_console self = self_console self"

definition VM_console_type :: "VM \<Rightarrow> pyval" where
  "VM_console_type self = self_console_type self"

definition VM_properties :: "VM \<Rightarrow> ref" where
  "VM_properties self = self_properties self"

definition VM_project :: "VM \<Rightarrow> project" where
  "VM_project self = self_project self"

text \<open>\<^verbatim>\<open>d[k] = v\<close> on the dictionary object that \<open>d\<close> refers to.\<close>

definition setitem :: "ref \<Rightarrow> string \<Rightarrow> pyval \<Rightarrow> world \<Rightarrow> world" where
  "setitem d k v w = w\<lparr>dicts := (dicts w)(d := (dicts w d)(k \<mapsto> v))\<rparr>"

text \<open>Modelled from the spec: the hypervisor's \<^verbatim>\<open>post\<close> (the ComputeLink transport) is
  not among the sources.  It sends one request to its endpoint; the model records the
  request, with the body as it is when the call is made.\<close>

definition hypervisor_post :: "hypervisor \<Rightarrow> string \<Rightarrow> ref \<Rightarrow> world \<Rightarrow> world" where
  "hypervisor_post hyp path data w =
     w\<lparr>posted := posted w @ [\<lparr>req_hypervisor = hyp, req_path = path, req_data = dicts w data\<rparr>]\<rparr>"

text \<open>
  \<^verbatim>\<open>VM.create\<close>.  \<^verbatim>\<open>data = self._properties\<close> binds a second name to the same dictionary
  object; the four item assignments then go to that object.  The result is the VM object
  and the world after the call.
\<close>

definition VM_create :: "VM \<Rightarrow> world \<Rightarrow> VM \<times> world" where
  "VM_create self w =
     (let data = self_properties self;
          w1 = setitem data ''vm_id'' (self_id self) w;
          w2 = setitem data ''name'' (self_name self) w1;
          w3 = setitem data ''console'' (self_console self) w2;
          w4 = setitem data ''console_type'' (self_console_type self) w3;
          w5 = hypervisor_post (self_hypervisor self)
                 (''/projects/'' @ py_str (project_id (self_project self)) @ ''/''
                    @ py_str (self_vm_type self) @ ''/vms'')
                 data w4
      in (self, w5))"

text \<open>\<^verbatim>\<open>VM.__json__\<close>: a dictionary of eight entries; the last one holds the properties
  dictionary object itself.\<close>

datatype jsonval = JVal pyval | JRef ref

definition VM_json :: "VM \<Rightarrow> (string \<rightharpoonup> jsonval)" where
  "VM_json self =
     [''hypervisor_id'' \<mapsto> JVal (hypervisor_id (self_hypervisor self)),
      ''project_id'' \<mapsto> JVal (project_id (self_project self)),
      ''vm_id'' \<mapsto> JVal (self_id self),
      ''vm_type'' \<mapsto> JVal (self_vm_type self),
      ''name'' \<mapsto> JVal (self_name self),
      ''console'' \<mapsto> JVal (self_console self),
      ''console_type'' \<mapsto> JVal (self_console_type self),
      ''properties'' \<mapsto> JRef (self_properties self)]"

section \<open>Server settings (gns3server/schemas/config.py)\<close>

text \<open>
  \<^verbatim>\<open>ServerSettings\<close> is a pydantic (version 1) model.  Building it from the keys of
  the \<^verbatim>\<open>[Server]\<close> section validates the fields in the order of their declaration.  For
  each field:
  \<^item> a key that is absent gets the field's default, and no validator runs (no validator
    of the class is declared with \<^verbatim>\<open>always=True\<close>);
  \<^item> a key that is present goes through the validators declared \<^verbatim>\<open>pre=True\<close>, the
    validators of the field's type and constraints, and then the other validators of the
    class; the first failure is recorded as the field's error and the field is left out
    of \<^verbatim>\<open>values\<close>;
  \<^item> a class validator receives in \<^verbatim>\<open>values\<close> the fields validated before it.
  Construction raises \<^verbatim>\<open>ValidationError\<close> when at least one error was recorded.

  The model keeps the fields that have a constraint or a validator: \<^verbatim>\<open>port\<close>, the three
  path fields, \<^verbatim>\<open>enable_ssl\<close>, the two list fields and the six port-range fields.  Keys are
  given with the type the field coerces them to, so a value that does not parse is outside
  the model; the remaining fields are plain strings and booleans that no validator reads.
\<close>

datatype verror =
    NumberNotGtError int
  | NumberNotGeError int
  | NumberNotLeError int
  | PathNotExistsError
  | PathNotAFileError
  | PathNotADirectoryError
  | ValueError string

text \<open>What the path types ask of the file system.\<close>

record paths =
  path_exists :: "string \<Rightarrow> bool"
  path_is_file :: "string \<Rightarrow> bool"
  path_is_dir :: "string \<Rightarrow> bool"

text \<open>The keys of the section; \<open>None\<close> is an absent key.\<close>

record raw_settings =
  raw_port :: "int option"
  raw_secrets_dir :: "string option"
  raw_certfile :: "string option"
  raw_certkey :: "string option"
  raw_enable_ssl :: "bool option"
  raw_additional_images_paths :: "string option"
  raw_console_start_port_range :: "int option"
  raw_console_end_port_range :: "int option"
  raw_vnc_console_start_port_range :: "int option"
  raw_vnc_console_end_port_range :: "int option"
  raw_udp_start_port_range :: "int option"
  raw_udp_end_port_range :: "int option"
  raw_allowed_interfaces :: "string option"

text \<open>The dictionary \<^verbatim>\<open>values\<close>: \<open>None\<close> is a field that is not in it (not reached yet,
  or failed); a path field that is in it holds \<^verbatim>\<open>None\<close> or a path.\<close>

record validated =
  port :: "int option"
  secrets_dir :: "string option option"
  certfile :: "string option option"
  certkey :: "string option option"
  enable_ssl :: "bool option"
  additional_images_paths :: "string list option"
  console_start_port_range :: "int option"
  console_end_port_range :: "int option"
  vnc_console_start_port_range :: "int option"
  vnc_console_end_port_range :: "int option"
  udp_start_port_range :: "int option"
  udp_end_port_range :: "int option"
  allowed_interfaces :: "string list option"

definition no_values :: validated where
  "no_values =
     \<lparr> port = None, secrets_dir = None, certfile = None, certkey = None, enable_ssl = None,
       additional_images_paths = None, console_start_port_range = None,
       console_end_port_range = None, vnc_console_start_port_range = None,
       vnc_console_end_port_range = None, udp_start_port_range = None,
       udp_end_port_range = None, allowed_interfaces = None \<rparr>"

record vstate =
  vals :: validated
  errs :: "(string \<times> verror) list"

definition validate_field ::
  "string \<Rightarrow> 'r option \<Rightarrow> 'a \<Rightarrow> ('r \<Rightarrow> validated \<Rightarrow> verror + 'a) \<Rightarrow>
   ('a \<Rightarrow> validated \<Rightarrow> validated) \<Rightarrow> vstate \<Rightarrow> vstate" where
  "validate_field name raw dflt validators store st =
     (case raw of
        None \<Rightarrow> st\<lparr>vals := store dflt (vals st)\<rparr>
      | Some r \<Rightarrow>
          (case validators r (vals st) of
             Inl e \<Rightarrow> st\<lparr>errs := errs st @ [(name, e)]\<rparr>
           | Inr v \<Rightarrow> st\<lparr>vals := store v (vals st)\<rparr>))"

subsection \<open>Validators of the field types\<close>

text \<open>\<^verbatim>\<open>Field(default, gt=.., ge=.., le=..)\<close> on an \<^verbatim>\<open>int\<close>, and pydantic's check of the
  bounds, in its order: \<^verbatim>\<open>gt\<close>, else \<^verbatim>\<open>ge\<close>, then \<^verbatim>\<open>le\<close>.\<close>

record int_field =
  f_default :: int
  f_gt :: "int option"
  f_ge :: "int option"
  f_le :: "int option"

definition number_size_validator :: "int_field \<Rightarrow> int \<Rightarrow> verror + int" where
  "number_size_validator f v =
     (if f_gt f \<noteq> None \<and> \<not> v > the (f_gt f) then Inl (NumberNotGtError (the (f_gt f)))
      else if f_ge f \<noteq> None \<and> \<not> v \<ge> the (f_ge f) then Inl (NumberNotGeError (the (f_ge f)))
      else if f_le f \<noteq> None \<and> \<not> v \<le> the (f_le f) then Inl (NumberNotLeError (the (f_le f)))
      else Inr v)"

text \<open>\<^verbatim>\<open>FilePath\<close> and \<^verbatim>\<open>DirectoryPath\<close>: the path exists and is of the right kind.\<close>

definition file_path_validator :: "paths \<Rightarrow> string \<Rightarrow> verror + string option" where
  "file_path_validator fs p =
     (if \<not> path_exists fs p then Inl PathNotExistsError
      else if \<not> path_is_file fs p then Inl PathNotAFileError
      else Inr (Some p))"

definition directory_path_validator :: "paths \<Rightarrow> string \<Rightarrow> verror + string option" where
  "directory_path_validator fs p =
     (if \<not> path_exists fs p then Inl PathNotExistsError
      else if \<not> path_is_dir fs p then Inl PathNotADirectoryError
      else Inr (Some p))"

text \<open>\<^verbatim>\<open>str.strip()\<close>, which \<^verbatim>\<open>anystr_strip_whitespace = True\<close> applies to every string, also to
  the items of a \<^verbatim>\<open>List[str]\<close>.  It removes the leading and trailing characters for which
  \<^verbatim>\<open>str.isspace()\<close> holds.  A character of the model is a code point from U+0000 to
  U+00FF; in that range \<^verbatim>\<open>isspace\<close> holds for exactly the twelve below: the ASCII white
  space, the four separators U+001C to U+001F, NEXT LINE (U+0085) and NO-BREAK SPACE
  (U+00A0).  Strings with a code point above U+00FF are outside the model.\<close>

definition is_space :: "char \<Rightarrow> bool" where
  "is_space c = (c \<in> set [CHR 0x09, CHR 0x0A, CHR 0x0B, CHR 0x0C, CHR 0x0D,
                          CHR 0x1C, CHR 0x1D, CHR 0x1E, CHR 0x1F, CHR 0x20,
                          CHR 0x85, CHR 0xA0])"

definition py_strip :: "string \<Rightarrow> string" where
  "py_strip s = rev (dropWhile is_space (rev (dropWhile is_space s)))"

definition str_list_validator :: "string list \<Rightarrow> string list" where
  "str_list_validator xs = map py_strip xs"

text \<open>\<^verbatim>\<open>s.split(sep)\<close> for a separator of one character, and \<^verbatim>\<open>sep.join(xs)\<close>.\<close>

fun py_split :: "char \<Rightarrow> string \<Rightarrow> string list" where
  "py_split sep [] = [[]]"
| "py_split sep (c # cs) =
     (if c = sep then [] # py_split sep cs
      else (case py_split sep cs of
              [] \<Rightarrow> [[c]]
            | seg # segs \<Rightarrow> (c # seg) # segs))"

fun py_join :: "char \<Rightarrow> string list \<Rightarrow> string" where
  "py_join sep [] = []"
| "py_join sep [x] = x"
| "py_join sep (x # y # ys) = x @ sep # py_join sep (y # ys)"

subsection \<open>The fields and validators of ServerSettings\<close>

definition port_field :: int_field where
  "port_field = \<lparr>f_default = 3080, f_gt = Some 0, f_ge = None, f_le = Some 65535\<rparr>"

definition console_start_port_range_field :: int_field where
  "console_start_port_range_field =
     \<lparr>f_default = 5000, f_gt = Some 0, f_ge = None, f_le = Some 65535\<rparr>"

definition console_end_port_range_field :: int_field where
  "console_end_port_range_field =
     \<lparr>f_default = 10000, f_gt = Some 0, f_ge = None, f_le = Some 65535\<rparr>"

definition vnc_console_start_port_range_field :: int_field where
  "vnc_console_start_port_range_field =
     \<lparr>f_default = 5900, f_gt = None, f_ge = Some 5900, f_le = Some 65535\<rparr>"

definition vnc_console_end_port_range_field :: int_field where
  "vnc_console_end_port_range_field =
     \<lparr>f_default = 10000, f_gt = None, f_ge = Some 5900, f_le = Some 65535\<rparr>"

definition udp_start_port_range_field :: int_field where
  "udp_start_port_range_field =
     \<lparr>f_default = 10000, f_gt = Some 0, f_ge = None, f_le = Some 65535\<rparr>"

definition udp_end_port_range_field :: int_field where
  "udp_end_port_range_field =
     \<lparr>f_default = 30000, f_gt = Some 0, f_ge = None, f_le = Some 65535\<rparr>"

definition split_additional_images_paths :: "string \<Rightarrow> string list" where
  "split_additional_images_paths v = (if v \<noteq> [] then py_split CHR '';'' v else [])"

definition split_allowed_interfaces :: "string \<Rightarrow> string list" where
  "split_allowed_interfaces v = (if v \<noteq> [] then py_split CHR '','' v else [])"

definition console_port_range :: "int \<Rightarrow> validated \<Rightarrow> verror + int" where
  "console_port_range v vs =
     (if console_start_port_range vs \<noteq> None \<and> v \<le> the (console_start_port_range vs)
      then Inl (ValueError ''console_end_port_range must be > console_start_port_range'')
      else Inr v)"

definition vnc_console_port_range :: "int \<Rightarrow> validated \<Rightarrow> verror + int" where
  "vnc_console_port_range v vs =
     (if vnc_console_start_port_range vs \<noteq> None \<and> v \<le> the (vnc_console_start_port_range vs)
      then Inl (ValueError ''vnc_console_end_port_range must be > vnc_console_start_port_range'')
      else Inr v)"

text \<open>\<^verbatim>\<open>not values["certfile"]\<close>: the value is \<^verbatim>\<open>None\<close> or a path object, and a path
  object is true.\<close>

definition truthy :: "string option \<Rightarrow> bool" where
  "truthy p = (p \<noteq> None)"

definition validate_enable_ssl :: "bool \<Rightarrow> validated \<Rightarrow> verror + bool" where
  "validate_enable_ssl v vs =
     (if v = True then
        (if certfile vs = None \<or> \<not> truthy (the (certfile vs))
         then Inl (ValueError ''SSL is enabled but certfile is not configured'')
         else if certkey vs = None \<or> \<not> truthy (the (certkey vs))
         then Inl (ValueError ''SSL is enabled but certkey is not configured'')
         else Inr v)
      else Inr v)"

subsection \<open>Validation of the fields, in the order of the class\<close>

definition field_port :: "raw_settings \<Rightarrow> vstate \<Rightarrow> vstate" where
  "field_port raw =
     validate_field ''port'' (raw_port raw) (f_default port_field)
       (\<lambda>v vs. number_size_validator port_field v)
       (\<lambda>v vs. vs\<lparr>port := Some v\<rparr>)"

definition field_secrets_dir :: "paths \<Rightarrow> raw_settings \<Rightarrow> vstate \<Rightarrow> vstate" where
  "field_secrets_dir fs raw =
     validate_field ''secrets_dir'' (raw_secrets_dir raw) None
       (\<lambda>v vs. directory_path_validator fs v)
       (\<lambda>v vs. vs\<lparr>secrets_dir := Some v\<rparr>)"

definition field_certfile :: "paths \<Rightarrow> raw_settings \<Rightarrow> vstate \<Rightarrow> vstate" where
  "field_certfile fs raw =
     validate_field ''certfile'' (raw_certfile raw) None
       (\<lambda>v vs. file_path_validator fs v)
       (\<lambda>v vs. vs\<lparr>certfile := Some v\<rparr>)"

definition field_certkey :: "paths \<Rightarrow> raw_settings \<Rightarrow> vstate \<Rightarrow> vstate" where
  "field_certkey fs raw =
     validate_field ''certkey'' (raw_certkey raw) None
       (\<lambda>v vs. file_path_validator fs v)
       (\<lambda>v vs. vs\<lparr>certkey := Some v\<rparr>)"

definition field_enable_ssl :: "raw_settings \<Rightarrow> vstate \<Rightarrow> vstate" where
  "field_enable_ssl raw =
     validate_field ''enable_ssl'' (raw_enable_ssl raw) False
       validate_enable_ssl
       (\<lambda>v vs. vs\<lparr>enable_ssl := Some v\<rparr>)"

definition field_additional_images_paths :: "raw_settings \<Rightarrow> vstate \<Rightarrow> vstate" where
  "field_additional_images_paths raw =
     validate_field ''additional_images_paths'' (raw_additional_images_paths raw) []
       (\<lambda>v vs. Inr (str_list_validator (split_additional_images_paths v)))
       (\<lambda>v vs. vs\<lparr>additional_images_paths := Some v\<rparr>)"

definition field_console_start_port_range :: "raw_settings \<Rightarrow> vstate \<Rightarrow> vstate" where
  "field_console_start_port_range raw =
     validate_field ''console_start_port_range'' (raw_console_start_port_range raw)
       (f_default console_start_port_range_field)
       (\<lambda>v vs. number_size_validator console_start_port_range_field v)
       (\<lambda>v vs. vs\<lparr>console_start_port_range := Some v\<rparr>)"

definition field_console_end_port_range :: "raw_settings \<Rightarrow> vstate \<Rightarrow> vstate" where
  "field_console_end_port_range raw =
     validate_field ''console_end_port_range'' (raw_console_end_port_range raw)
       (f_default console_end_port_range_field)
       (\<lambda>v vs. case number_size_validator console_end_port_range_field v of
                  Inl e \<Rightarrow> Inl e
                | Inr v' \<Rightarrow> console_port_range v' vs)
       (\<lambda>v vs. vs\<lparr>console_end_port_range := Some v\<rparr>)"

definition field_vnc_console_start_port_range :: "raw_settings \<Rightarrow> vstate \<Rightarrow> vstate" where
  "field_vnc_console_start_port_range raw =
     validate_field ''vnc_console_start_port_range'' (raw_vnc_console_start_port_range raw)
       (f_default vnc_console_start_port_range_field)
       (\<lambda>v vs. number_size_validator vnc_console_start_port_range_field v)
       (\<lambda>v vs. vs\<lparr>vnc_console_start_port_range := Some v\<rparr>)"

definition field_vnc_console_end_port_range :: "raw_settings \<Rightarrow> vstate \<Rightarrow> vstate" where
  "field_vnc_console_end_port_range raw =
     validate_field ''vnc_console_end_port_range'' (raw_vnc_console_end_port_range raw)
       (f_default vnc_console_end_port_range_field)
       (\<lambda>v vs. case number_size_validator vnc_console_end_port_range_field v of
                  Inl e \<Rightarrow> Inl e
                | Inr v' \<Rightarrow> vnc_console_port_range v' vs)
       (\<lambda>v vs. vs\<lparr>vnc_console_end_port_range := Some v\<rparr>)"

definition field_udp_start_port_range :: "raw_settings \<Rightarrow> vstate \<Rightarrow> vstate" where
  "field_udp_start_port_range raw =
     validate_field ''udp_start_port_range'' (raw_udp_start_port_range raw)
       (f_default udp_start_port_range_field)
       (\<lambda>v vs. number_size_validator udp_start_port_range_field v)
       (\<lambda>v vs. vs\<lparr>udp_start_port_range := Some v\<rparr>)"

definition field_udp_end_port_range :: "raw_settings \<Rightarrow> vstate \<Rightarrow> vstate" where
  "field_udp_end_port_range raw =
     validate_field ''udp_end_port_range'' (raw_udp_end_port_range raw)
       (f_default udp_end_port_range_field)
       (\<lambda>v vs. number_size_validator udp_end_port_range_field v)
       (\<lambda>v vs. vs\<lparr>udp_end_port_range := Some v\<rparr>)"

definition field_allowed_interfaces :: "raw_settings \<Rightarrow> vstate \<Rightarrow> vstate" where
  "field_allowed_interfaces raw =
     validate_field ''allowed_interfaces'' (raw_allowed_interfaces raw) []
       (\<lambda>v vs. Inr (str_list_validator (split_allowed_interfaces v)))
       (\<lambda>v vs. vs\<lparr>allowed_interfaces := Some v\<rparr>)"

definition validate_model :: "paths \<Rightarrow> raw_settings \<Rightarrow> vstate" where
  "validate_model fs raw =
     field_allowed_interfaces raw
      (field_udp_end_port_range raw
       (field_udp_start_port_range raw
        (field_vnc_console_end_port_range raw
         (field_vnc_console_start_port_range raw
          (field_console_end_port_range raw
           (field_console_start_port_range raw
            (field_additional_images_paths raw
             (field_enable_ssl raw
              (field_certkey fs raw
               (field_certfile fs raw
                (field_secrets_dir fs raw
                 (field_port raw \<lparr>vals = no_values, errs = []\<rparr>))))))))))))"

text \<open>\<^verbatim>\<open>ServerSettings(**section)\<close>: the validated fields, or the errors that
  \<^verbatim>\<open>ValidationError\<close> carries.\<close>

definition ServerSettings_load ::
  "paths \<Rightarrow> raw_settings \<Rightarrow> (string \<times> verror) list + validated" where
  "ServerSettings_load fs raw =
     (let st = validate_model fs raw
      in if errs st = [] then Inr (vals st) else Inl (errs st))"

text \<open>A section with no key at all.\<close>

definition no_keys :: raw_settings where
  "no_keys =
     \<lparr> raw_port = None, raw_secrets_dir = None, raw_certfile = None, raw_certkey = None,
       raw_enable_ssl = None, raw_additional_images_paths = None,
       raw_console_start_port_range = None, raw_console_end_port_range = None,
       raw_vnc_console_start_port_range = None, raw_vnc_console_end_port_range = None,
       raw_udp_start_port_range = None, raw_udp_end_port_range = None,
       raw_allowed_interfaces = None \<rparr>"

section \<open>The project file guard\<close>

text \<open>
  The routes that read and store a project file are exercised by
  \<^verbatim>\<open>tests/api/routes/compute/test_projects.py\<close>; their handlers are not among the sources.
  A path is a string of segments separated by \<^verbatim>\<open>/\<close>; a file system maps the normalised
  absolute path of a file to its bytes.  Symbolic links are outside this model.
\<close>

type_synonym segments = "string list"

type_synonym files = "segments \<rightharpoonup> string"

datatype response = Ok200 string | NoContent204 | NotFound404

text \<open>Modelled from the spec: the guard "normalizes the requested path"; the handlers
  are missing.  Empty segments and \<^verbatim>\<open>.\<close> are dropped, \<^verbatim>\<open>..\<close> removes the segment before
  it and stays at the top when there is none.  The first argument is the stack of the
  segments kept so far, innermost first.\<close>

fun normalize :: "segments \<Rightarrow> segments \<Rightarrow> segments" where
  "normalize acc [] = rev acc"
| "normalize acc (s # ss) =
     (if s = [] \<or> s = ''.'' then normalize acc ss
      else if s = ''..'' then normalize (tl acc) ss
      else normalize (s # acc) ss)"

text \<open>Modelled from the spec: "the resulting absolute path" of a request against the
  project root; the handlers are missing.  A request that starts with \<^verbatim>\<open>/\<close> is absolute
  already and replaces the root.\<close>

definition absolute :: "string \<Rightarrow> string \<Rightarrow> segments" where
  "absolute root req =
     (if req \<noteq> [] \<and> hd req = CHR ''/'' then normalize [] (py_split CHR ''/'' req)
      else normalize [] (py_split CHR ''/'' root @ py_split CHR ''/'' req))"

text \<open>Modelled from the spec: "is a descendant of projectRoot"; the handlers are
  missing.\<close>

definition is_descendant :: "segments \<Rightarrow> segments \<Rightarrow> bool" where
  "is_descendant r p = (length r < length p \<and> take (length r) p = r)"

text \<open>Modelled from the spec: \<^verbatim>\<open>resolve(projectRoot, requestedRelativePath)\<close> of the
  ProjectFileGuard, "absolutePath | NotFound"; the handlers are missing.\<close>

definition resolve :: "string \<Rightarrow> string \<Rightarrow> segments option" where
  "resolve root req =
     (let p = absolute root req
      in if is_descendant (normalize [] (py_split CHR ''/'' root)) p then Some p else None)"

text \<open>Modelled from the spec: the read of a project file, "byte content, 404 if missing
  or path escapes project root"; the handler is missing.\<close>

definition read_file :: "string \<Rightarrow> files \<Rightarrow> string \<Rightarrow> response" where
  "read_file root fs req =
     (case resolve root req of
        None \<Rightarrow> NotFound404
      | Some p \<Rightarrow> (case fs p of None \<Rightarrow> NotFound404 | Some bytes \<Rightarrow> Ok200 bytes))"

text \<open>Modelled from the spec: the store of a project file, "write raw body; 204 on
  success; 404 on path escape", which "creates or overwrites the file at the resolved
  path"; the handler is missing.\<close>

definition write_file :: "string \<Rightarrow> files \<Rightarrow> string \<Rightarrow> string \<Rightarrow> response \<times> files" where
  "write_file root fs req body =
     (case resolve root req of
        None \<Rightarrow> (NotFound404, fs)
      | Some p \<Rightarrow> (NoContent204, fs(p \<mapsto> body)))"

text \<open>A request resolves outside the project root when its absolute path is not below
  the root.\<close>

definition resolves_outside :: "string \<Rightarrow> string \<Rightarrow> bool" where
  "resolves_outside root req =
     (\<not> is_descendant (normalize [] (py_split CHR ''/'' root)) (absolute root req))"

section \<open>Sample objects\<close>

text \<open>A project, a hypervisor and a world in which the caller owns one dictionary,
  \<^verbatim>\<open>{"ram": 512}\<close> at reference 1, while the default dictionary of \<^verbatim>\<open>__init__\<close> is still
  empty.\<close>

definition example_project :: project where
  "example_project = \<lparr>project_id = PStr ''01010203-0405-0607-0809-0a0b0c0d0e0b''\<rparr>"

definition example_hypervisor :: hypervisor where
  "example_hypervisor = \<lparr>hypervisor_id = PStr ''local''\<rparr>"

definition example_world :: world where
  "example_world =
     \<lparr>dicts = (\<lambda>r. Map.empty)(1 := [''ram'' \<mapsto> PInt 512]), posted = []\<rparr>"

definition example_vm :: VM where
  "example_vm =
     VM_init ''6e7f7d1c-6a0a-4c0b-9a57-0d1f0b6a2c11'' example_project example_hypervisor
       (PStr ''vm-a'') (PStr ''vpcs'') (PStr ''PC1'') (PInt 5000) None (Some 1)"

text \<open>A file system for the path fields of the settings: a certificate and its key
  exist as files, and nothing else does.\<close>

definition example_paths :: paths where
  "example_paths =
     \<lparr> path_exists = (\<lambda>p. p = ''/etc/gns3/server.crt'' \<or> p = ''/etc/gns3/server.key''),
       path_is_file = (\<lambda>p. p = ''/etc/gns3/server.crt'' \<or> p = ''/etc/gns3/server.key''),
       path_is_dir = (\<lambda>p. False) \<rparr>"

text \<open>The project of \<^verbatim>\<open>test_get_file\<close>: its directory holds the file \<^verbatim>\<open>hello\<close> with the
  bytes \<^verbatim>\<open>world\<close>.\<close>

definition example_root :: string where
  "example_root = ''/tmp/projects/01010203-0405-0607-0809-0a0b0c0d0e0b''"

definition example_files :: files where
  "example_files =
     [[''tmp'', ''projects'', ''01010203-0405-0607-0809-0a0b0c0d0e0b'', ''hello'']
        \<mapsto> ''world'']"

text \<open>A section with the two list keys, and the settings it loads to.\<close>

definition example_section :: raw_settings where
  "example_section =
     no_keys\<lparr>raw_additional_images_paths := Some ''/opt/images; /srv/ios'',
              raw_allowed_interfaces := Some ''eth0,virbr0''\<rparr>"

definition example_settings :: validated where
  "example_settings =
     \<lparr> port = Some 3080, secrets_dir = Some None, certfile = Some None,
       certkey = Some None, enable_ssl = Some False,
       additional_images_paths = Some [''/opt/images'', ''/srv/ios''],
       console_start_port_range = Some 5000, console_end_port_range = Some 10000,
       vnc_console_start_port_range = Some 5900, vnc_console_end_port_range = Some 10000,
       udp_start_port_range = Some 10000, udp_end_port_range = Some 30000,
       allowed_interfaces = Some [''eth0'', ''virbr0''] \<rparr>"

section \<open>Notions used by the properties\<close>

text \<open>A path key is set when it is present and names an existing file, which is when
  the field holds a path after validation.\<close>

definition configured :: "paths \<Rightarrow> string option \<Rightarrow> bool" where
  "configured fs r =
     (case r of None \<Rightarrow> False | Some p \<Rightarrow> path_exists fs p \<and> path_is_file fs p)"

text \<open>The fields that have an error recorded.\<close>

definition error_fields :: "vstate \<Rightarrow> string set" where
  "error_fields st = fst ` set (errs st)"

section \<open>Properties of the VM proxy\<close>

lemma VM_json_dom:
  "dom (VM_json self) =
     {''hypervisor_id'', ''project_id'', ''vm_id'', ''vm_type'', ''name'', ''console'',
      ''console_type'', ''properties''}"
  by (auto simp: VM_json_def)

lemma VM_create_dicts:
  "dicts (snd (VM_create self w)) =
     (dicts w)(self_properties self :=
        (dicts w (self_properties self))
          (''vm_id'' \<mapsto> self_id self, ''name'' \<mapsto> self_name self,
           ''console'' \<mapsto> self_console self, ''console_type'' \<mapsto> self_console_type self))"
  by (simp add: VM_create_def Let_def setitem_def hypervisor_post_def)

lemma VM_create_fst: "fst (VM_create self w) = self"
  by (simp add: VM_create_def Let_def)

text \<open>
  C2: \<^verbatim>\<open>create()\<close> would leave the mapping passed at construction unchanged.  It does
  not: the caller's dictionary \<^verbatim>\<open>{"ram": 512}\<close> has no key \<^verbatim>\<open>vm_id\<close> before the call and
  holds the VM's id after it; and after \<^verbatim>\<open>create()\<close> on a VM built without properties,
  the shared default dictionary, empty before, holds that VM's generated id.
\<close>

theorem VM_create_mutates_caller_mapping:
  "dicts example_world 1 ''vm_id'' = None
   \<and> dicts (snd (VM_create example_vm example_world)) 1 ''vm_id'' = Some (PStr ''vm-a'')
   \<and> dicts example_world default_properties = Map.empty
   \<and> dicts (snd (VM_create
              (VM_init ''0b0e6f0a-54d1-4a53-8f0e-6c1a3f7f1d22'' example_project
                 example_hypervisor PNone PNone PNone PNone None None)
              example_world)) default_properties ''vm_id''
       = Some (PStr ''0b0e6f0a-54d1-4a53-8f0e-6c1a3f7f1d22'')"
  by (simp add: VM_create_dicts example_vm_def VM_init_def example_world_def
      default_properties_def)

text \<open>
  C3, as stated: the serialized record would have the key
  \<^verbatim>\<open>compute_id\<close>.  For the sample VM the set of keys is a different one.
\<close>

theorem VM_json_compute_id_counterexample:
  "dom (VM_json example_vm) \<noteq>
     {''compute_id'', ''project_id'', ''vm_id'', ''vm_type'', ''name'', ''console'',
      ''console_type'', ''properties''}"
proof
  assume eq: "dom (VM_json example_vm) =
     {''compute_id'', ''project_id'', ''vm_id'', ''vm_type'', ''name'', ''console'',
      ''console_type'', ''properties''}"
  have "''compute_id'' \<notin> dom (VM_json example_vm)"
    unfolding VM_json_dom by simp
  moreover have "''compute_id'' \<in> dom (VM_json example_vm)"
    unfolding eq by simp
  ultimately show False by simp
qed

text \<open>
  C3, amended: for every VM, \<^verbatim>\<open>__json__\<close> gives a record with exactly the keys
  \<^verbatim>\<open>hypervisor_id\<close>, \<^verbatim>\<open>project_id\<close>, \<^verbatim>\<open>vm_id\<close>, \<^verbatim>\<open>vm_type\<close>, \<^verbatim>\<open>name\<close>, \<^verbatim>\<open>console\<close>,
  \<^verbatim>\<open>console_type\<close> and \<^verbatim>\<open>properties\<close>, holding the id of the owning hypervisor, the id of
  the owning project, the VM's id, emulator type, name, console port, console type and
  its property mapping.
\<close>

theorem VM_json_record:
  "dom (VM_json self) =
     {''hypervisor_id'', ''project_id'', ''vm_id'', ''vm_type'', ''name'', ''console'',
      ''console_type'', ''properties''}
   \<and> VM_json self ''hypervisor_id'' = Some (JVal (hypervisor_id (self_hypervisor self)))
   \<and> VM_json self ''project_id'' = Some (JVal (project_id (VM_project self)))
   \<and> VM_json self ''vm_id'' = Some (JVal (VM_id self))
   \<and> VM_json self ''vm_type'' = Some (JVal (VM_vm_type self))
   \<and> VM_json self ''name'' = Some (JVal (self_name self))
   \<and> VM_json self ''console'' = Some (JVal (VM_console self))
   \<and> VM_json self ''console_type'' = Some (JVal (VM_console_type self))
   \<and> VM_json self ''properties'' = Some (JRef (VM_properties self))"
  by (simp add: VM_json_dom)
     (simp add: VM_json_def VM_id_def VM_vm_type_def VM_console_def VM_console_type_def
        VM_properties_def VM_project_def)

text \<open>
  C4: for every VM, \<^verbatim>\<open>create()\<close> adds exactly one request to those posted: it goes to
  the VM's hypervisor, its path is \<^verbatim>\<open>/projects/{project id}/{vm type}/vms\<close>, and its body
  is the VM's property mapping with the entries \<^verbatim>\<open>vm_id\<close>, \<^verbatim>\<open>name\<close>, \<^verbatim>\<open>console\<close> and
  \<^verbatim>\<open>console_type\<close> set to the VM's id, name, console port and console type.
\<close>

theorem VM_create_posts_once:
  "posted (snd (VM_create self w)) =
     posted w @
       [\<lparr> req_hypervisor = self_hypervisor self,
          req_path = ''/projects/'' @ py_str (project_id (self_project self)) @ ''/''
                       @ py_str (self_vm_type self) @ ''/vms'',
          req_data = (dicts w (self_properties self))
                       (''vm_id'' \<mapsto> self_id self, ''name'' \<mapsto> self_name self,
                        ''console'' \<mapsto> self_console self,
                        ''console_type'' \<mapsto> self_console_type self) \<rparr>]"
  by (simp add: VM_create_def Let_def setitem_def hypervisor_post_def)

text \<open>
  C8: the id of a VM built with a \<^verbatim>\<open>vm_id\<close> other than \<^verbatim>\<open>None\<close> is that value; the id
  of a VM built without one is the string of the UUID generated in the constructor; and
  \<^verbatim>\<open>create()\<close>, the only method that writes anything, leaves the id as it was.
\<close>

theorem VM_id_fixed:
  "VM_id (VM_init uuid4 proj hyp vm_id vm_type name console console_type properties) =
     (if vm_id = PNone then PStr uuid4 else vm_id)
   \<and> VM_id (fst (VM_create self w)) = VM_id self"
  by (simp add: VM_id_def VM_init_def VM_create_fst)

text \<open>
  C10: a VM built without a \<^verbatim>\<open>console_type\<close> has the console type \<^verbatim>\<open>"telnet"\<close>, and
  that string is the \<^verbatim>\<open>console_type\<close> entry of its serialized record.
\<close>

theorem VM_default_console_type:
  "VM_console_type (VM_init uuid4 proj hyp vm_id vm_type name console None properties)
     = PStr ''telnet''
   \<and> VM_json (VM_init uuid4 proj hyp vm_id vm_type name console None properties)
        ''console_type''
       = Some (JVal (PStr ''telnet''))"
  by (simp add: VM_console_type_def VM_init_def VM_json_def)

section \<open>Properties of the server settings\<close>

lemmas field_defs =
  field_port_def field_secrets_dir_def field_certfile_def field_certkey_def
  field_enable_ssl_def field_additional_images_paths_def
  field_console_start_port_range_def field_console_end_port_range_def
  field_vnc_console_start_port_range_def field_vnc_console_end_port_range_def
  field_udp_start_port_range_def field_udp_end_port_range_def field_allowed_interfaces_def

lemmas int_field_defs =
  port_field_def console_start_port_range_field_def console_end_port_range_field_def
  vnc_console_start_port_range_field_def vnc_console_end_port_range_field_def
  udp_start_port_range_field_def udp_end_port_range_field_def

lemma validate_field_errs_mono:
  "errs st \<noteq> [] \<Longrightarrow> errs (validate_field n r d f u st) \<noteq> []"
  by (simp add: validate_field_def split: option.splits sum.splits)

text \<open>An error, once recorded, stays: no later field removes it.\<close>

lemma field_errs_mono:
  "errs st \<noteq> [] \<Longrightarrow> errs (field_port raw st) \<noteq> []"
  "errs st \<noteq> [] \<Longrightarrow> errs (field_secrets_dir fs raw st) \<noteq> []"
  "errs st \<noteq> [] \<Longrightarrow> errs (field_certfile fs raw st) \<noteq> []"
  "errs st \<noteq> [] \<Longrightarrow> errs (field_certkey fs raw st) \<noteq> []"
  "errs st \<noteq> [] \<Longrightarrow> errs (field_enable_ssl raw st) \<noteq> []"
  "errs st \<noteq> [] \<Longrightarrow> errs (field_additional_images_paths raw st) \<noteq> []"
  "errs st \<noteq> [] \<Longrightarrow> errs (field_console_start_port_range raw st) \<noteq> []"
  "errs st \<noteq> [] \<Longrightarrow> errs (field_console_end_port_range raw st) \<noteq> []"
  "errs st \<noteq> [] \<Longrightarrow> errs (field_vnc_console_start_port_range raw st) \<noteq> []"
  "errs st \<noteq> [] \<Longrightarrow> errs (field_vnc_console_end_port_range raw st) \<noteq> []"
  "errs st \<noteq> [] \<Longrightarrow> errs (field_udp_start_port_range raw st) \<noteq> []"
  "errs st \<noteq> [] \<Longrightarrow> errs (field_udp_end_port_range raw st) \<noteq> []"
  "errs st \<noteq> [] \<Longrightarrow> errs (field_allowed_interfaces raw st) \<noteq> []"
  by (simp_all add: field_defs validate_field_errs_mono)

lemma load_rejected_iff:
  "isl (ServerSettings_load fs raw) \<longleftrightarrow> errs (validate_model fs raw) \<noteq> []"
  by (simp add: ServerSettings_load_def Let_def)

text \<open>The two pairs that have a validator: with both keys present and the end not above
  the start, the end field records an error, unless the start field did already.\<close>

lemma console_pair:
  assumes "raw_console_start_port_range raw = Some s"
    and "raw_console_end_port_range raw = Some e"
    and "e \<le> s"
  shows "errs (field_console_end_port_range raw (field_console_start_port_range raw st)) \<noteq> []"
  using assms
  by (simp add: field_console_start_port_range_def field_console_end_port_range_def
      validate_field_def number_size_validator_def console_port_range_def int_field_defs
      split: sum.splits)

lemma vnc_pair:
  assumes "raw_vnc_console_start_port_range raw = Some s"
    and "raw_vnc_console_end_port_range raw = Some e"
    and "e \<le> s"
  shows "errs (field_vnc_console_end_port_range raw
                 (field_vnc_console_start_port_range raw st)) \<noteq> []"
  using assms
  by (simp add: field_vnc_console_start_port_range_def field_vnc_console_end_port_range_def
      validate_field_def number_size_validator_def vnc_console_port_range_def int_field_defs
      split: sum.splits)

lemma console_range_rejected:
  assumes "raw_console_start_port_range raw = Some s"
    and "raw_console_end_port_range raw = Some e"
    and "e \<le> s"
  shows "isl (ServerSettings_load fs raw)"
  unfolding load_rejected_iff validate_model_def
  by (intro field_errs_mono console_pair [OF assms])

lemma vnc_range_rejected:
  assumes "raw_vnc_console_start_port_range raw = Some s"
    and "raw_vnc_console_end_port_range raw = Some e"
    and "e \<le> s"
  shows "isl (ServerSettings_load fs raw)"
  unfolding load_rejected_iff validate_model_def
  by (intro field_errs_mono vnc_pair [OF assms])

text \<open>The range validators run only on a key that is present: a console start above the
  default end loads when the end key is absent.\<close>

lemma console_range_unchecked_on_default:
  "(case ServerSettings_load fs (no_keys\<lparr>raw_console_start_port_range := Some 20000\<rparr>) of
      Inl es \<Rightarrow> False
    | Inr vs \<Rightarrow>
        console_start_port_range vs = Some 20000 \<and> console_end_port_range vs = Some 10000)"
  by (simp add: ServerSettings_load_def validate_model_def field_defs validate_field_def
      no_keys_def no_values_def int_field_defs number_size_validator_def)

subsection \<open>Errors stay, and where they come from\<close>

text \<open>The fields after a given one keep its error; the SSL validator and the VNC
  bounds record one under the conditions below, whatever the state before.\<close>

lemma after_enable_ssl:
  "errs st \<noteq> [] \<Longrightarrow>
   errs (field_allowed_interfaces raw
      (field_udp_end_port_range raw
       (field_udp_start_port_range raw
        (field_vnc_console_end_port_range raw
         (field_vnc_console_start_port_range raw
          (field_console_end_port_range raw
           (field_console_start_port_range raw
            (field_additional_images_paths raw st)))))))) \<noteq> []"
  by (intro field_errs_mono)

lemma after_vnc_start:
  "errs st \<noteq> [] \<Longrightarrow>
   errs (field_allowed_interfaces raw
      (field_udp_end_port_range raw
       (field_udp_start_port_range raw
        (field_vnc_console_end_port_range raw st)))) \<noteq> []"
  by (intro field_errs_mono)

lemma after_vnc_end:
  "errs st \<noteq> [] \<Longrightarrow>
   errs (field_allowed_interfaces raw
      (field_udp_end_port_range raw
       (field_udp_start_port_range raw st))) \<noteq> []"
  by (intro field_errs_mono)

lemma ssl_triple:
  assumes "raw_enable_ssl raw = Some True"
    and "\<not> (configured fs (raw_certfile raw) \<and> configured fs (raw_certkey raw))"
  shows "errs (field_enable_ssl raw (field_certkey fs raw (field_certfile fs raw st))) \<noteq> []"
  using assms
  by (auto simp add: field_enable_ssl_def field_certkey_def field_certfile_def validate_field_def
      validate_enable_ssl_def file_path_validator_def configured_def truthy_def
      split: option.splits sum.splits if_splits)

lemma vnc_start_low:
  assumes "raw_vnc_console_start_port_range raw = Some v" and "v < 5900"
  shows "errs (field_vnc_console_start_port_range raw st) \<noteq> []"
  using assms
  by (simp add: field_vnc_console_start_port_range_def validate_field_def
      number_size_validator_def vnc_console_start_port_range_field_def)

lemma vnc_end_low:
  assumes "raw_vnc_console_end_port_range raw = Some v" and "v < 5900"
  shows "errs (field_vnc_console_end_port_range raw st) \<noteq> []"
  using assms
  by (simp add: field_vnc_console_end_port_range_def validate_field_def
      number_size_validator_def vnc_console_end_port_range_field_def)

lemma vnc_start_low_rejected:
  assumes "raw_vnc_console_start_port_range raw = Some v" and "v < 5900"
  shows "isl (ServerSettings_load fs raw)"
  unfolding load_rejected_iff validate_model_def
  by (rule after_vnc_start) (rule vnc_start_low [OF assms])

lemma vnc_end_low_rejected:
  assumes "raw_vnc_console_end_port_range raw = Some v" and "v < 5900"
  shows "isl (ServerSettings_load fs raw)"
  unfolding load_rejected_iff validate_model_def
  by (rule after_vnc_end) (rule vnc_end_low [OF assms])

lemma one_key_bounds:
  "isl (ServerSettings_load fs (no_keys\<lparr>raw_console_start_port_range := Some x\<rparr>))
     \<longleftrightarrow> \<not> (1 \<le> x \<and> x \<le> 65535)"
  "isl (ServerSettings_load fs (no_keys\<lparr>raw_udp_start_port_range := Some x\<rparr>))
     \<longleftrightarrow> \<not> (1 \<le> x \<and> x \<le> 65535)"
  "isl (ServerSettings_load fs (no_keys\<lparr>raw_udp_end_port_range := Some x\<rparr>))
     \<longleftrightarrow> \<not> (1 \<le> x \<and> x \<le> 65535)"
  by (auto simp add: ServerSettings_load_def validate_model_def field_defs validate_field_def
      no_keys_def no_values_def int_field_defs number_size_validator_def)

lemma error_fields_other:
  "x \<noteq> n \<Longrightarrow> x \<in> error_fields (validate_field n r d f u st) \<longleftrightarrow> x \<in> error_fields st"
  by (auto simp add: validate_field_def error_fields_def split: option.splits sum.splits)

lemma error_fields_absent:
  "error_fields (validate_field n None d f u st) = error_fields st"
  by (simp add: validate_field_def error_fields_def)

lemma error_fields_enable_ssl:
  "raw_enable_ssl raw \<noteq> Some True \<Longrightarrow>
   error_fields (field_enable_ssl raw st) = error_fields st"
  by (cases "raw_enable_ssl raw")
     (auto simp add: field_enable_ssl_def validate_field_def error_fields_def validate_enable_ssl_def)

lemma error_fields_certfile:
  "raw_certfile raw = None \<Longrightarrow> error_fields (field_certfile fs raw st) = error_fields st"
  by (simp add: field_certfile_def error_fields_absent)

lemma error_fields_certkey:
  "raw_certkey raw = None \<Longrightarrow> error_fields (field_certkey fs raw st) = error_fields st"
  by (simp add: field_certkey_def error_fields_absent)

lemma error_fields_start: "error_fields \<lparr>vals = vs, errs = []\<rparr> = {}"
  by (simp add: error_fields_def)

lemmas other_field_defs =
  field_port_def field_secrets_dir_def field_additional_images_paths_def
  field_console_start_port_range_def field_console_end_port_range_def
  field_vnc_console_start_port_range_def field_vnc_console_end_port_range_def
  field_udp_start_port_range_def field_udp_end_port_range_def field_allowed_interfaces_def

lemma ssl_off_no_error:
  assumes "raw_enable_ssl raw \<noteq> Some True" and "raw_certfile raw = None"
    and "raw_certkey raw = None"
  shows "''enable_ssl'' \<notin> error_fields (validate_model fs raw)"
    and "''certfile'' \<notin> error_fields (validate_model fs raw)"
    and "''certkey'' \<notin> error_fields (validate_model fs raw)"
  using assms
  by (simp_all add: validate_model_def other_field_defs error_fields_other
      error_fields_enable_ssl error_fields_certfile error_fields_certkey error_fields_start)

text \<open>Two closed cases: the section that only says \<^verbatim>\<open>enable_ssl = false\<close> loads, and
  so does the one that enables SSL with both files.\<close>

lemma enable_ssl_false_loads:
  "\<not> isl (ServerSettings_load fs (no_keys\<lparr>raw_enable_ssl := Some False\<rparr>))"
  by (simp add: ServerSettings_load_def validate_model_def field_defs validate_field_def
      no_keys_def no_values_def validate_enable_ssl_def)

lemma enable_ssl_true_with_both_loads:
  "\<not> isl (ServerSettings_load example_paths
             (no_keys\<lparr>raw_certfile := Some ''/etc/gns3/server.crt'',
                       raw_certkey := Some ''/etc/gns3/server.key'',
                       raw_enable_ssl := Some True\<rparr>))"
  by (simp add: ServerSettings_load_def validate_model_def field_defs validate_field_def
      no_keys_def no_values_def validate_enable_ssl_def file_path_validator_def
      example_paths_def truthy_def)

subsection \<open>Splitting and joining\<close>

lemma py_split_not_Nil: "py_split sep s \<noteq> []"
  by (induction s) (auto split: list.splits)

lemma py_join_Cons: "py_join sep ((c # seg) # segs) = c # py_join sep (seg # segs)"
  by (cases segs) simp_all

lemma py_join_split: "py_join sep (py_split sep s) = s"
proof (induction s)
  case Nil
  show ?case by simp
next
  case (Cons c cs)
  obtain seg segs where sp: "py_split sep cs = seg # segs"
    using py_split_not_Nil [of sep cs] by (cases "py_split sep cs") auto
  with Cons show ?case by (simp add: py_join_Cons)
qed

lemma py_split_no_sep: "seg \<in> set (py_split sep s) \<Longrightarrow> sep \<notin> set seg"
  by (induction s arbitrary: seg) (auto split: list.splits if_splits)

lemma py_split_length: "length (py_split sep s) = Suc (length (filter (\<lambda>c. c = sep) s))"
  by (induction s) (auto split: list.splits simp: py_split_not_Nil)

subsection \<open>The list fields after loading\<close>

lemma validate_field_frame:
  assumes "\<And>v vs. proj (u v vs) = proj vs"
  shows "proj (vals (validate_field n r d f u st)) = proj (vals st)"
  using assms by (simp add: validate_field_def split: option.splits sum.splits)

lemma additional_images_paths_frame:
  "additional_images_paths (vals (field_console_start_port_range raw st)) = additional_images_paths (vals st)"
  "additional_images_paths (vals (field_console_end_port_range raw st)) = additional_images_paths (vals st)"
  "additional_images_paths (vals (field_vnc_console_start_port_range raw st)) = additional_images_paths (vals st)"
  "additional_images_paths (vals (field_vnc_console_end_port_range raw st)) = additional_images_paths (vals st)"
  "additional_images_paths (vals (field_udp_start_port_range raw st)) = additional_images_paths (vals st)"
  "additional_images_paths (vals (field_udp_end_port_range raw st)) = additional_images_paths (vals st)"
  "additional_images_paths (vals (field_allowed_interfaces raw st)) = additional_images_paths (vals st)"
  unfolding field_defs by (rule validate_field_frame, simp)+

lemma additional_images_paths_own:
  "additional_images_paths (vals (field_additional_images_paths raw st)) =
     Some (case raw_additional_images_paths raw of
             None \<Rightarrow> []
           | Some v \<Rightarrow> map py_strip (split_additional_images_paths v))"
  by (simp add: field_additional_images_paths_def validate_field_def str_list_validator_def
      split: option.splits)

lemma allowed_interfaces_own:
  "allowed_interfaces (vals (field_allowed_interfaces raw st)) =
     Some (case raw_allowed_interfaces raw of
             None \<Rightarrow> []
           | Some v \<Rightarrow> map py_strip (split_allowed_interfaces v))"
  by (simp add: field_allowed_interfaces_def validate_field_def str_list_validator_def
      split: option.splits)

lemma additional_images_paths_loaded:
  "additional_images_paths (vals (validate_model fs raw)) =
     Some (case raw_additional_images_paths raw of
             None \<Rightarrow> []
           | Some v \<Rightarrow> map py_strip (split_additional_images_paths v))"
  unfolding validate_model_def
  by (simp only: additional_images_paths_frame additional_images_paths_own)

lemma allowed_interfaces_loaded:
  "allowed_interfaces (vals (validate_model fs raw)) =
     Some (case raw_allowed_interfaces raw of
             None \<Rightarrow> []
           | Some v \<Rightarrow> map py_strip (split_allowed_interfaces v))"
  unfolding validate_model_def by (rule allowed_interfaces_own)

subsection \<open>Loading the settings\<close>

text \<open>
  C1: a configuration whose end is not above its start would be rejected for each of the
  three pairs.  The class has such a validator for the console pair and for the VNC pair
  and none for the UDP pair: a section with \<^verbatim>\<open>udp_start_port_range = 30000\<close> and
  \<^verbatim>\<open>udp_end_port_range = 20000\<close> loads, with these two values.
\<close>

theorem udp_port_range_unchecked:
  "(case ServerSettings_load fs
           (no_keys\<lparr>raw_udp_start_port_range := Some 30000,
                     raw_udp_end_port_range := Some 20000\<rparr>) of
      Inl es \<Rightarrow> False
    | Inr vs \<Rightarrow> udp_start_port_range vs = Some 30000 \<and> udp_end_port_range vs = Some 20000)"
  by (simp add: ServerSettings_load_def validate_model_def field_defs validate_field_def
      no_keys_def no_values_def int_field_defs number_size_validator_def)

text \<open>
  C9: a \<^verbatim>\<open>vnc_console_start_port_range\<close> or \<^verbatim>\<open>vnc_console_end_port_range\<close> key below 5900
  makes the load fail; the bounds of the two VNC fields accept exactly 5900..65535, and
  the bounds of the console and UDP fields accept exactly 1..65535.
\<close>

theorem vnc_bounds_stricter:
  "((raw_vnc_console_start_port_range raw = Some v \<or> raw_vnc_console_end_port_range raw = Some v)
      \<and> v < 5900 \<longrightarrow> isl (ServerSettings_load fs raw))
   \<and> (number_size_validator vnc_console_start_port_range_field x = Inr x
        \<longleftrightarrow> 5900 \<le> x \<and> x \<le> 65535)
   \<and> (number_size_validator vnc_console_end_port_range_field x = Inr x
        \<longleftrightarrow> 5900 \<le> x \<and> x \<le> 65535)
   \<and> (number_size_validator console_start_port_range_field x = Inr x
        \<longleftrightarrow> 1 \<le> x \<and> x \<le> 65535)
   \<and> (number_size_validator console_end_port_range_field x = Inr x
        \<longleftrightarrow> 1 \<le> x \<and> x \<le> 65535)
   \<and> (number_size_validator udp_start_port_range_field x = Inr x
        \<longleftrightarrow> 1 \<le> x \<and> x \<le> 65535)
   \<and> (number_size_validator udp_end_port_range_field x = Inr x
        \<longleftrightarrow> 1 \<le> x \<and> x \<le> 65535)"
proof -
  have load: "(raw_vnc_console_start_port_range raw = Some v
                 \<or> raw_vnc_console_end_port_range raw = Some v) \<and> v < 5900
              \<longrightarrow> isl (ServerSettings_load fs raw)"
    using vnc_start_low_rejected vnc_end_low_rejected by blast
  have bounds:
    "number_size_validator vnc_console_start_port_range_field x = Inr x
       \<longleftrightarrow> 5900 \<le> x \<and> x \<le> 65535"
    "number_size_validator vnc_console_end_port_range_field x = Inr x
       \<longleftrightarrow> 5900 \<le> x \<and> x \<le> 65535"
    "number_size_validator console_start_port_range_field x = Inr x
       \<longleftrightarrow> 1 \<le> x \<and> x \<le> 65535"
    "number_size_validator console_end_port_range_field x = Inr x
       \<longleftrightarrow> 1 \<le> x \<and> x \<le> 65535"
    "number_size_validator udp_start_port_range_field x = Inr x
       \<longleftrightarrow> 1 \<le> x \<and> x \<le> 65535"
    "number_size_validator udp_end_port_range_field x = Inr x
       \<longleftrightarrow> 1 \<le> x \<and> x \<le> 65535"
    by (auto simp add: number_size_validator_def int_field_defs)
  from load bounds show ?thesis by blast
qed

theorem vnc_bounds_stricter_witness:
  "isl (ServerSettings_load example_paths
          (no_keys\<lparr>raw_vnc_console_start_port_range := Some 5899\<rparr>))
   \<and> number_size_validator console_start_port_range_field 5899 = Inr 5899
   \<and> number_size_validator vnc_console_start_port_range_field 5899 \<noteq> Inr 5899"
  using vnc_bounds_stricter [of "no_keys\<lparr>raw_vnc_console_start_port_range := Some 5899\<rparr>"
      5899 example_paths 5899]
  by simp

text \<open>
  C5: with the key \<^verbatim>\<open>enable_ssl\<close> true, the load fails unless \<^verbatim>\<open>certfile\<close> and
  \<^verbatim>\<open>certkey\<close> are both set; with \<^verbatim>\<open>enable_ssl\<close> false or absent and neither
  \<^verbatim>\<open>certfile\<close> nor \<^verbatim>\<open>certkey\<close> present, none of the three fields has an error, and the
  validator returns \<^verbatim>\<open>False\<close> unchanged whatever the other fields hold.
\<close>

theorem enable_ssl_requires_cert_and_key:
  "(raw_enable_ssl raw = Some True
      \<and> \<not> (configured fs (raw_certfile raw) \<and> configured fs (raw_certkey raw))
      \<longrightarrow> isl (ServerSettings_load fs raw))
   \<and> (raw_enable_ssl raw \<noteq> Some True \<and> raw_certfile raw = None \<and> raw_certkey raw = None
      \<longrightarrow> ''enable_ssl'' \<notin> error_fields (validate_model fs raw)
          \<and> ''certfile'' \<notin> error_fields (validate_model fs raw)
          \<and> ''certkey'' \<notin> error_fields (validate_model fs raw))
   \<and> validate_enable_ssl False vs = Inr False"
proof -
  have rejected: "isl (ServerSettings_load fs raw)"
    if "raw_enable_ssl raw = Some True"
      and "\<not> (configured fs (raw_certfile raw) \<and> configured fs (raw_certkey raw))"
    unfolding load_rejected_iff validate_model_def
    by (rule after_enable_ssl) (rule ssl_triple [OF that])
  have off: "validate_enable_ssl False vs = Inr False"
    by (simp add: validate_enable_ssl_def)
  from rejected off ssl_off_no_error [of raw fs] show ?thesis by blast
qed

theorem enable_ssl_requires_cert_and_key_witness:
  "isl (ServerSettings_load example_paths (no_keys\<lparr>raw_enable_ssl := Some True\<rparr>))
   \<and> isl (ServerSettings_load example_paths
            (no_keys\<lparr>raw_certfile := Some ''/etc/gns3/server.crt'',
                      raw_enable_ssl := Some True\<rparr>))
   \<and> ''enable_ssl'' \<notin> error_fields
         (validate_model example_paths (no_keys\<lparr>raw_enable_ssl := Some False\<rparr>))"
  using enable_ssl_requires_cert_and_key
          [of "no_keys\<lparr>raw_enable_ssl := Some True\<rparr>" example_paths]
        enable_ssl_requires_cert_and_key
          [of "no_keys\<lparr>raw_certfile := Some ''/etc/gns3/server.crt'',
                        raw_enable_ssl := Some True\<rparr>" example_paths]
        enable_ssl_requires_cert_and_key
          [of "no_keys\<lparr>raw_enable_ssl := Some False\<rparr>" example_paths]
  by (simp add: no_keys_def configured_def example_paths_def)

text \<open>The sample section loads, to the sample settings: the segments are in order and
  the blank after the semicolon is gone.\<close>

lemma example_section_loads:
  "ServerSettings_load example_paths example_section = Inr example_settings"
  by (simp add: ServerSettings_load_def validate_model_def field_defs validate_field_def
      no_keys_def no_values_def int_field_defs str_list_validator_def example_section_def
      example_settings_def split_additional_images_paths_def split_allowed_interfaces_def
      py_strip_def is_space_def)

text \<open>The white space that is not ASCII goes as well: the value
  \<^verbatim>\<open>'eth0\xa0,\x85eth1'\<close> of \<^verbatim>\<open>allowed_interfaces\<close> loads as \<^verbatim>\<open>['eth0', 'eth1']\<close>.\<close>

lemma latin1_space_stripped:
  "py_strip (''eth0'' @ [CHR 0xA0]) = ''eth0''"
  "py_strip (CHR 0x85 # ''eth1'') = ''eth1''"
  "(case ServerSettings_load example_paths
           (no_keys\<lparr>raw_allowed_interfaces :=
                       Some (''eth0'' @ [CHR 0xA0] @ '','' @ [CHR 0x85] @ ''eth1'')\<rparr>) of
      Inl es \<Rightarrow> False
    | Inr vs \<Rightarrow> allowed_interfaces vs = Some [''eth0'', ''eth1''])"
  by (simp_all add: ServerSettings_load_def validate_model_def field_defs validate_field_def
      no_keys_def no_values_def int_field_defs str_list_validator_def
      split_allowed_interfaces_def py_strip_def is_space_def)

text \<open>
  C7: for a value that is not empty, the validator of \<^verbatim>\<open>additional_images_paths\<close> returns
  the split at \<^verbatim>\<open>;\<close> and the validator of \<^verbatim>\<open>allowed_interfaces\<close> the split at \<^verbatim>\<open>,\<close>:
  joining the segments with the delimiter gives the value back, in this order, and no
  segment holds the delimiter.  The empty value gives the empty list.  In the loaded
  settings each field holds the segments in that order, each stripped of the white space
  around it, and the empty list when the key is absent.
\<close>

theorem path_lists_split:
  "(v \<noteq> [] \<longrightarrow>
      split_additional_images_paths v = py_split CHR '';'' v
      \<and> py_join CHR '';'' (split_additional_images_paths v) = v
      \<and> (\<forall>seg \<in> set (split_additional_images_paths v). CHR '';'' \<notin> set seg)
      \<and> split_allowed_interfaces v = py_split CHR '','' v
      \<and> py_join CHR '','' (split_allowed_interfaces v) = v
      \<and> (\<forall>seg \<in> set (split_allowed_interfaces v). CHR '','' \<notin> set seg))
   \<and> split_additional_images_paths [] = []
   \<and> split_allowed_interfaces [] = []
   \<and> (ServerSettings_load fs raw = Inr vs \<longrightarrow>
        additional_images_paths vs =
          Some (case raw_additional_images_paths raw of
                  None \<Rightarrow> []
                | Some a \<Rightarrow> map py_strip (split_additional_images_paths a))
        \<and> allowed_interfaces vs =
          Some (case raw_allowed_interfaces raw of
                  None \<Rightarrow> []
                | Some a \<Rightarrow> map py_strip (split_allowed_interfaces a)))"
proof -
  have nonempty:
    "split_additional_images_paths v = py_split CHR '';'' v"
    "py_join CHR '';'' (split_additional_images_paths v) = v"
    "\<forall>seg \<in> set (split_additional_images_paths v). CHR '';'' \<notin> set seg"
    "split_allowed_interfaces v = py_split CHR '','' v"
    "py_join CHR '','' (split_allowed_interfaces v) = v"
    "\<forall>seg \<in> set (split_allowed_interfaces v). CHR '','' \<notin> set seg"
    if "v \<noteq> []"
    using that
    by (simp_all add: split_additional_images_paths_def split_allowed_interfaces_def
        py_join_split py_split_no_sep)
  have empty: "split_additional_images_paths [] = []" "split_allowed_interfaces [] = []"
    by (simp_all add: split_additional_images_paths_def split_allowed_interfaces_def)
  have loaded:
    "additional_images_paths vs =
       Some (case raw_additional_images_paths raw of
               None \<Rightarrow> []
             | Some a \<Rightarrow> map py_strip (split_additional_images_paths a))"
    "allowed_interfaces vs =
       Some (case raw_allowed_interfaces raw of
               None \<Rightarrow> []
             | Some a \<Rightarrow> map py_strip (split_allowed_interfaces a))"
    if "ServerSettings_load fs raw = Inr vs"
  proof -
    from that have "vs = vals (validate_model fs raw)"
      by (simp add: ServerSettings_load_def Let_def split: if_splits)
    then show
      "additional_images_paths vs =
         Some (case raw_additional_images_paths raw of
                 None \<Rightarrow> []
               | Some a \<Rightarrow> map py_strip (split_additional_images_paths a))"
      "allowed_interfaces vs =
         Some (case raw_allowed_interfaces raw of
                 None \<Rightarrow> []
               | Some a \<Rightarrow> map py_strip (split_allowed_interfaces a))"
      by (simp_all only: additional_images_paths_loaded allowed_interfaces_loaded)
  qed
  from nonempty empty loaded show ?thesis by blast
qed

theorem path_lists_split_witness:
  "split_additional_images_paths ''/opt/images; /srv/ios'' = [''/opt/images'', '' /srv/ios'']
   \<and> py_join CHR '';'' [''/opt/images'', '' /srv/ios''] = ''/opt/images; /srv/ios''
   \<and> ServerSettings_load example_paths example_section = Inr example_settings
   \<and> additional_images_paths example_settings = Some [''/opt/images'', ''/srv/ios'']
   \<and> allowed_interfaces example_settings = Some [''eth0'', ''virbr0'']"
  using path_lists_split [where v = "''/opt/images; /srv/ios''" and fs = example_paths
          and raw = example_section and vs = example_settings]
        example_section_loads
  by (simp add: example_settings_def)

section \<open>Properties of the project file guard\<close>

lemma normalize_append:
  "normalize acc (xs @ ys) = normalize (rev (normalize acc xs)) ys"
  by (induction xs arbitrary: acc) simp_all

lemma py_split_at_sep:
  "py_split sep (xs @ sep # ys) = py_split sep xs @ py_split sep ys"
proof (induction xs)
  case Nil
  show ?case by simp
next
  case (Cons c cs)
  obtain seg segs where "py_split sep cs = seg # segs"
    using py_split_not_Nil [of sep cs] by (cases "py_split sep cs") auto
  with Cons show ?case by simp
qed

lemma py_split_single: "sep \<notin> set x \<Longrightarrow> py_split sep x = [x]"
  by (induction x) auto

lemma dotdot_escapes:
  assumes root: "normalize [] (py_split CHR ''/'' root) \<noteq> []"
    and name: "CHR ''/'' \<notin> set name" "name \<noteq> []" "name \<noteq> ''.''" "name \<noteq> ''..''"
  shows "resolves_outside root (''../'' @ name)"
proof -
  define r where "r = normalize [] (py_split CHR ''/'' root)"
  define req where "req = ''../'' @ name"
  have split: "py_split CHR ''/'' req = [''..'', name]"
    using py_split_at_sep [of "CHR ''/''" "''..''" name] name(1)
    by (simp add: py_split_single req_def)
  have "req \<noteq> [] \<and> hd req \<noteq> CHR ''/''"
    by (simp add: req_def)
  then have "absolute root req = normalize [] (py_split CHR ''/'' root @ py_split CHR ''/'' req)"
    by (simp add: absolute_def)
  also have "\<dots> = normalize (rev r) [''..'', name]"
    unfolding split normalize_append r_def ..
  also have "\<dots> = rev (name # tl (rev r))"
    using name by simp
  finally have abs: "absolute root req = rev (name # tl (rev r))" .
  from root have "length (absolute root req) = length r"
    unfolding abs by (simp add: r_def)
  then have "\<not> is_descendant r (absolute root req)"
    by (simp add: is_descendant_def)
  then show ?thesis
    by (simp add: resolves_outside_def r_def req_def)
qed

lemma example_root_segments:
  "normalize [] (py_split CHR ''/'' example_root) =
     [''tmp'', ''projects'', ''01010203-0405-0607-0809-0a0b0c0d0e0b'']"
  by (simp add: example_root_def)

lemma example_absolute:
  "absolute example_root ''hello'' =
     [''tmp'', ''projects'', ''01010203-0405-0607-0809-0a0b0c0d0e0b'', ''hello'']"
  "absolute example_root ''false'' =
     [''tmp'', ''projects'', ''01010203-0405-0607-0809-0a0b0c0d0e0b'', ''false'']"
  "absolute example_root ''../hello'' = [''tmp'', ''projects'', ''hello'']"
  "absolute example_root ''/etc/passwd'' = [''etc'', ''passwd'']"
  by (simp_all add: absolute_def example_root_def)

lemma example_outside:
  "resolves_outside example_root ''../hello''"
  "resolves_outside example_root ''/etc/passwd''"
  "\<not> resolves_outside example_root ''hello''"
  "\<not> resolves_outside example_root ''false''"
  by (simp_all add: resolves_outside_def example_root_segments example_absolute is_descendant_def)

lemma test_get_file:
  "read_file example_root example_files ''hello'' = Ok200 ''world''"
  "read_file example_root example_files ''false'' = NotFound404"
  "read_file example_root example_files ''../hello'' = NotFound404"
  by (simp_all add: read_file_def resolve_def example_root_segments example_absolute
      is_descendant_def example_files_def)

lemma test_write_file:
  "write_file example_root Map.empty ''hello'' ''world'' = (NoContent204, example_files)"
  "write_file example_root example_files ''../hello'' ''world'' = (NotFound404, example_files)"
  by (simp_all add: write_file_def resolve_def example_root_segments example_absolute
      is_descendant_def example_files_def)

text \<open>
  C6: a request that resolves outside the project root gets the not-found response from
  the read and from the store, which leaves the files as they were; it is the response
  that the read gives for a path inside the root that has no file.  A request
  \<^verbatim>\<open>../name\<close> resolves outside every root that is not the top directory.
\<close>

theorem escaping_path_not_found:
  "(resolves_outside root req \<longrightarrow>
      read_file root fs req = NotFound404
      \<and> write_file root fs req body = (NotFound404, fs)
      \<and> (resolve root inside = Some p \<and> fs p = None
           \<longrightarrow> read_file root fs inside = read_file root fs req))
   \<and> (normalize [] (py_split CHR ''/'' root) \<noteq> [] \<and> CHR ''/'' \<notin> set name
        \<and> name \<noteq> [] \<and> name \<noteq> ''.'' \<and> name \<noteq> ''..''
      \<longrightarrow> resolves_outside root (''../'' @ name))"
proof -
  have guard:
    "read_file root fs req = NotFound404"
    "write_file root fs req body = (NotFound404, fs)"
    "resolve root inside = Some p \<and> fs p = None
       \<longrightarrow> read_file root fs inside = read_file root fs req"
    if "resolves_outside root req"
    using that
    by (simp_all add: resolves_outside_def read_file_def write_file_def resolve_def Let_def)
  from guard dotdot_escapes [of root name] show ?thesis by blast
qed

theorem escaping_path_not_found_witness:
  "resolves_outside example_root ''../hello''
   \<and> read_file example_root example_files ''../hello'' = NotFound404
   \<and> write_file example_root example_files ''../hello'' ''world'' = (NotFound404, example_files)
   \<and> resolve example_root ''false'' =
        Some [''tmp'', ''projects'', ''01010203-0405-0607-0809-0a0b0c0d0e0b'', ''false'']
   \<and> read_file example_root example_files ''false''
        = read_file example_root example_files ''../hello''"
  using escaping_path_not_found [where root = example_root and req = "''../hello''"
          and fs = example_files and body = "''world''" and inside = "''false''"
          and p = "[''tmp'', ''projects'', ''01010203-0405-0607-0809-0a0b0c0d0e0b'', ''false'']"
          and name = "''hello''"]
  by (simp add: example_outside resolve_def example_root_segments example_absolute
      is_descendant_def example_files_def)

end
